theory Spec2Isabelle
  imports Main
begin

section \<open>Data model of the session context (src/src/contexts/AuthContext.tsx)\<close>

text \<open>
  The union type \<^verbatim>\<open>'user' | 'admin' | 'moderator' | 'editor'\<close> of \<^verbatim>\<open>UserProfile.role\<close>.
  \<open>role_name\<close> gives back the string literal, which the source uses as a key of
  \<^verbatim>\<open>rolePermissions\<close>, in \<^verbatim>\<open>includes\<close> and in the access-denied view.
\<close>

datatype role = Role_user | Role_admin | Role_moderator | Role_editor

fun role_name :: "role \<Rightarrow> string" where
  "role_name Role_user = ''user''"
| "role_name Role_admin = ''admin''"
| "role_name Role_moderator = ''moderator''"
| "role_name Role_editor = ''editor''"

text \<open>
  The values of \<^verbatim>\<open>permissions: Record<string, any> | null\<close> are of type \<^verbatim>\<open>any\<close>:
  JSON values as the profile table stores them.
\<close>

datatype jsval = JNull | JBool bool | JNum int | JStr string

text \<open>
  \<^verbatim>\<open>interface UserProfile\<close>: the fields the session logic reads. The display attributes
  (age, bio, social links, ...) are carried along by the source and read by no function
  modelled here; \<open>full_name\<close> stands for them. The field \<^verbatim>\<open>id\<close> is \<open>profile_id\<close>.
\<close>

record UserProfile =
  profile_id :: string
  full_name :: string
  role :: role
  is_active :: bool
  blocked :: bool
  permissions :: "(string \<rightharpoonup> jsval) option"

text \<open>The identity record of the authentication service; the source reads its \<^verbatim>\<open>id\<close>.\<close>

record User =
  user_id :: string
  email :: string

text \<open>The three \<^verbatim>\<open>useState\<close> cells of \<^verbatim>\<open>AuthProvider\<close>, and the derived flags of the context value.\<close>

record AuthState =
  user :: "User option"
  profile :: "UserProfile option"
  isLoading :: bool

definition initial_state :: AuthState where
  "initial_state = \<lparr>user = None, profile = None, isLoading = True\<rparr>"

definition isAuthenticated :: "AuthState \<Rightarrow> bool" where
  "isAuthenticated s = (user s \<noteq> None \<and> profile s \<noteq> None)"

definition isAdmin :: "AuthState \<Rightarrow> bool" where
  "isAdmin s = (map_option role (profile s) = Some Role_admin)"

definition isModerator :: "AuthState \<Rightarrow> bool" where
  "isModerator s = (map_option role (profile s) = Some Role_moderator)"

definition isEditor :: "AuthState \<Rightarrow> bool" where
  "isEditor s = (map_option role (profile s) = Some Role_editor)"

subsection \<open>hasPermission\<close>

text \<open>The object literal \<^verbatim>\<open>rolePermissions\<close>, keyed by role name; \<^verbatim>\<open>admin\<close> has no entry.\<close>

definition rolePermissions :: "(string \<times> string list) list" where
  "rolePermissions =
     [(''moderator'', [''moderate_content'', ''manage_comments'', ''view_analytics'']),
      (''editor'', [''create_content'', ''edit_content'', ''manage_posts'']),
      (''user'', [''view_content'', ''create_comments''])]"

text \<open>
  \<^verbatim>\<open>hasPermission(permission)\<close>, reading \<^verbatim>\<open>profile\<close> from the state. An object is truthy,
  so \<^verbatim>\<open>if (profile.permissions)\<close> tests for non-null; a missing key reads as
  \<^verbatim>\<open>undefined\<close>, which is not \<^verbatim>\<open>=== true\<close>; \<^verbatim>\<open>rolePermissions[role]?.includes(p) || false\<close>
  is false for a role without entry.
\<close>

definition hasPermission :: "AuthState \<Rightarrow> string \<Rightarrow> bool" where
  "hasPermission s permission =
     (case profile s of
        None \<Rightarrow> False
      | Some p \<Rightarrow>
          if role p = Role_admin then True
          else (case permissions p of
                  Some perms \<Rightarrow> perms permission = Some (JBool True)
                | None \<Rightarrow>
                    (case map_of rolePermissions (role_name (role p)) of
                       None \<Rightarrow> False
                     | Some caps \<Rightarrow> permission \<in> set caps)))"

text \<open>
  The resolution order as the specification words it (section 4.2): admin allows; else an
  override mapping that contains the name decides; else the static table; no profile denies.
  Used only to compare with \<open>hasPermission\<close>.
\<close>

fun static_capabilities :: "role \<Rightarrow> string set" where
  "static_capabilities Role_moderator = {''moderate_content'', ''manage_comments'', ''view_analytics''}"
| "static_capabilities Role_editor = {''create_content'', ''edit_content'', ''manage_posts''}"
| "static_capabilities Role_user = {''view_content'', ''create_comments''}"
| "static_capabilities Role_admin = {}"

definition hasCapability_spec :: "AuthState \<Rightarrow> string \<Rightarrow> bool" where
  "hasCapability_spec s name =
     (case profile s of
        None \<Rightarrow> False
      | Some p \<Rightarrow>
          if role p = Role_admin then True
          else (case permissions p of
                  None \<Rightarrow> name \<in> static_capabilities (role p)
                | Some perms \<Rightarrow>
                    (case perms name of
                       Some v \<Rightarrow> v = JBool True
                     | None \<Rightarrow> name \<in> static_capabilities (role p))))"

section \<open>The remote services, as the source awaits them\<close>

text \<open>
  An \<^verbatim>\<open>await\<close> either yields the value the promise resolved with or throws what it
  rejected with.
\<close>

datatype 'a awaited = Resolved 'a | Rejected

text \<open>
  The reply \<^verbatim>\<open>{ data, error }\<close> of the profile query, the reply \<^verbatim>\<open>{ error }\<close> of the remote
  sign-out (the source ignores it), and the reply \<^verbatim>\<open>{ data: { session }, error }\<close> of
  \<^verbatim>\<open>getSession\<close>, reduced to \<^verbatim>\<open>session?.user\<close>.
\<close>

datatype query_reply = Reply_data UserProfile | Reply_error

datatype signout_reply = SignOut_ok | SignOut_error

datatype session_reply = Session_data "User option" | Session_error

datatype transport = Up | Failing | Throwing

text \<open>
  What the two services answer at the time of a call: the rows of the table
  \<^verbatim>\<open>profiles\<close> and the state of the connection to it, and the outcomes of
  \<^verbatim>\<open>supabase.auth.signOut()\<close> and \<^verbatim>\<open>supabase.auth.getSession()\<close>.
\<close>

record services =
  profiles :: "UserProfile list"
  connection :: transport
  remote_signOut :: "signout_reply awaited"
  remote_getSession :: "session_reply awaited"

text \<open>
  \<^verbatim>\<open>from('profiles').select('*').eq('id', userId).single()\<close>: the rows whose id is
  \<^verbatim>\<open>userId\<close>; \<^verbatim>\<open>single()\<close> replies with an error unless there is exactly one.
\<close>

definition select_single :: "services \<Rightarrow> string \<Rightarrow> query_reply awaited" where
  "select_single svc userId =
     (case connection svc of
        Throwing \<Rightarrow> Rejected
      | Failing \<Rightarrow> Resolved Reply_error
      | Up \<Rightarrow>
          (case filter (\<lambda>row. profile_id row = userId) (profiles svc) of
             [row] \<Rightarrow> Resolved (Reply_data row)
           | _ \<Rightarrow> Resolved Reply_error))"

text \<open>
  \<^verbatim>\<open>fetchUserProfile(userId)\<close>: \<^verbatim>\<open>null\<close> on an error reply and on a thrown error (both only
  logged to the console, which the model leaves out), the row otherwise.
\<close>

definition fetchUserProfile :: "services \<Rightarrow> string \<Rightarrow> UserProfile option" where
  "fetchUserProfile svc userId =
     (case select_single svc userId of
        Rejected \<Rightarrow> None
      | Resolved Reply_error \<Rightarrow> None
      | Resolved (Reply_data row) \<Rightarrow> Some row)"

section \<open>Effects of the session operations\<close>

text \<open>
  Each operation is modelled by the sequence of effects its own statements perform, in
  program order: the three state setters, the call of the remote sign-out, and the notices
  shown to the user. \<open>completion\<close> says whether the operation returned or let an error
  escape. \<open>Call_remote_signOut\<close> marks the call itself, which sets nothing; what the
  client does to the state during the call is added by \<open>deliver\<close> below.
\<close>

datatype effect =
    SetUser "User option"
  | SetProfile "UserProfile option"
  | SetIsLoading bool
  | Call_remote_signOut
  | Toast_success string
  | Toast_error string

datatype completion = Returned | Threw

fun apply_effect :: "AuthState \<Rightarrow> effect \<Rightarrow> AuthState" where
  "apply_effect s (SetUser u) = s\<lparr>user := u\<rparr>"
| "apply_effect s (SetProfile p) = s\<lparr>profile := p\<rparr>"
| "apply_effect s (SetIsLoading b) = s\<lparr>isLoading := b\<rparr>"
| "apply_effect s Call_remote_signOut = s"
| "apply_effect s (Toast_success m) = s"
| "apply_effect s (Toast_error m) = s"

definition apply_effects :: "AuthState \<Rightarrow> effect list \<Rightarrow> AuthState" where
  "apply_effects s es = foldl apply_effect s es"

subsection \<open>refreshProfile and signOut\<close>

text \<open>\<^verbatim>\<open>refreshProfile\<close>: with a user, fetch and \<^verbatim>\<open>setProfile\<close> the result, \<^verbatim>\<open>null\<close> included.\<close>

definition refreshProfile :: "services \<Rightarrow> AuthState \<Rightarrow> effect list" where
  "refreshProfile svc s =
     (case user s of
        Some u \<Rightarrow> [SetProfile (fetchUserProfile svc (user_id u))]
      | None \<Rightarrow> [])"

text \<open>
  \<^verbatim>\<open>signOut\<close>: the \<^verbatim>\<open>try\<close> block, which the rejected remote call leaves before the setters
  run, and the \<^verbatim>\<open>catch\<close> block, which shows the error notice and returns.
\<close>

definition signOut_try :: "services \<Rightarrow> effect list \<times> completion" where
  "signOut_try svc =
     (case remote_signOut svc of
        Rejected \<Rightarrow> ([Call_remote_signOut], Threw)
      | Resolved reply \<Rightarrow>
          ([Call_remote_signOut, SetUser None, SetProfile None,
            Toast_success ''Signed out successfully''], Returned))"

definition signOut :: "services \<Rightarrow> effect list \<times> completion" where
  "signOut svc =
     (case signOut_try svc of
        (es, Threw) \<Rightarrow> (es @ [Toast_error ''Error signing out''], Returned)
      | (es, Returned) \<Rightarrow> (es, Returned))"

subsection \<open>The auth-state-change handler\<close>

text \<open>
  The callback given to \<^verbatim>\<open>onAuthStateChange\<close>, for the event payload \<^verbatim>\<open>session?.user\<close>.
  It runs up to \<^verbatim>\<open>await fetchUserProfile(session.user.id)\<close> (\<open>onAuth_begin\<close>, which leaves
  the user it waits for) and continues when the fetch has resolved (\<open>onAuth_resume\<close>).
  In the blocked or inactive branch it returns before \<^verbatim>\<open>setIsLoading(false)\<close>; a rejected
  remote sign-out escapes the callback.
\<close>

definition account_not_active :: string where
  "account_not_active = ''Your account is not active or has been blocked''"

definition onAuth_begin :: "User option \<Rightarrow> effect list \<times> User option" where
  "onAuth_begin session_user =
     (case session_user of
        Some u \<Rightarrow> ([SetUser (Some u)], Some u)
      | None \<Rightarrow> ([SetUser None, SetProfile None, SetIsLoading False], None))"

definition onAuth_resume :: "services \<Rightarrow> User \<Rightarrow> effect list \<times> completion" where
  "onAuth_resume svc u =
     (case fetchUserProfile svc (user_id u) of
        Some userProfile \<Rightarrow>
          if blocked userProfile \<or> is_active userProfile = False then
            (case remote_signOut svc of
               Rejected \<Rightarrow> ([Call_remote_signOut], Threw)
             | Resolved reply \<Rightarrow> ([Call_remote_signOut, Toast_error account_not_active], Returned))
          else ([SetProfile (Some userProfile), SetIsLoading False], Returned)
      | None \<Rightarrow> ([SetIsLoading False], Returned))"

text \<open>One event processed without interruption: the handler from its start to its end.\<close>

definition onAuthStateChange :: "services \<Rightarrow> User option \<Rightarrow> effect list \<times> completion" where
  "onAuthStateChange svc session_user =
     (case onAuth_begin session_user of
        (es, None) \<Rightarrow> (es, Returned)
      | (es, Some u) \<Rightarrow> (es @ fst (onAuth_resume svc u), snd (onAuth_resume svc u)))"

subsection \<open>getInitialSession\<close>

text \<open>
  The \<^verbatim>\<open>try\<close> block of \<^verbatim>\<open>getInitialSession\<close>; the \<^verbatim>\<open>catch\<close> block only logs, and the
  \<^verbatim>\<open>finally\<close> block runs \<^verbatim>\<open>setIsLoading(false)\<close> on every way out.
\<close>

definition getInitialSession_try :: "services \<Rightarrow> effect list \<times> completion" where
  "getInitialSession_try svc =
     (case remote_getSession svc of
        Rejected \<Rightarrow> ([], Threw)
      | Resolved Session_error \<Rightarrow> ([SetIsLoading False], Returned)
      | Resolved (Session_data None) \<Rightarrow> ([], Returned)
      | Resolved (Session_data (Some u)) \<Rightarrow>
          (case fetchUserProfile svc (user_id u) of
             Some userProfile \<Rightarrow>
               if blocked userProfile \<or> is_active userProfile = False then
                 (case remote_signOut svc of
                    Rejected \<Rightarrow> ([SetUser (Some u), Call_remote_signOut], Threw)
                  | Resolved reply \<Rightarrow>
                      ([SetUser (Some u), Call_remote_signOut, Toast_error account_not_active,
                        SetIsLoading False], Returned))
               else ([SetUser (Some u), SetProfile (Some userProfile)], Returned)
           | None \<Rightarrow> ([SetUser (Some u)], Returned)))"

definition getInitialSession :: "services \<Rightarrow> effect list \<times> completion" where
  "getInitialSession svc = (fst (getInitialSession_try svc) @ [SetIsLoading False], Returned)"

subsection \<open>The notification of a sign-out\<close>

text \<open>
  \<^verbatim>\<open>supabase.auth.signOut()\<close> belongs to the client library. When the sign-out succeeds, the
  client removes the session and notifies the callback subscribed with
  \<^verbatim>\<open>onAuthStateChange\<close> of \<^verbatim>\<open>SIGNED_OUT\<close> with no session, before the promise of the call
  resolves: the no-session branch of the handler runs inside the call. When the call
  replies with an error or rejects, the session is kept and nothing is notified.
  The login page of the repository relies on this notification: it signs a blocked user
  out with the remote call alone.
\<close>

definition signed_out_notification :: "services \<Rightarrow> effect list" where
  "signed_out_notification svc =
     (case remote_signOut svc of
        Resolved SignOut_ok \<Rightarrow> fst (onAuth_begin None)
      | Resolved SignOut_error \<Rightarrow> []
      | Rejected \<Rightarrow> [])"

text \<open>
  The effects of an operation with those of the notification put in after every call of
  the remote sign-out, and the state they lead to.
\<close>

fun deliver :: "services \<Rightarrow> effect list \<Rightarrow> effect list" where
  "deliver svc [] = []"
| "deliver svc (Call_remote_signOut # es) =
     Call_remote_signOut # signed_out_notification svc @ deliver svc es"
| "deliver svc (e # es) = e # deliver svc es"

definition state_after :: "services \<Rightarrow> AuthState \<Rightarrow> effect list \<Rightarrow> AuthState" where
  "state_after svc s es = apply_effects s (deliver svc es)"

subsection \<open>Overlapping handlers\<close>

text \<open>
  The callback is asynchronous: a new event can start its handler while earlier handlers
  still wait for their fetch. The system is the state together with the users the
  suspended handlers wait for, oldest first. A step is either an event, which runs a
  handler up to its \<^verbatim>\<open>await\<close>, or the resolution of the fetch of the suspended handler
  at a position, which runs that handler to its end.
\<close>

record system =
  auth :: AuthState
  waiting :: "User list"

datatype step = Auth_event "User option" | Fetch_resolves nat

definition do_step :: "services \<Rightarrow> system \<Rightarrow> step \<Rightarrow> system option" where
  "do_step svc sys st =
     (case st of
        Auth_event session_user \<Rightarrow>
          Some \<lparr>auth = state_after svc (auth sys) (fst (onAuth_begin session_user)),
                waiting = waiting sys @ (case snd (onAuth_begin session_user) of
                                           None \<Rightarrow> [] | Some u \<Rightarrow> [u])\<rparr>
      | Fetch_resolves i \<Rightarrow>
          if i < length (waiting sys) then
            Some \<lparr>auth = state_after svc (auth sys) (fst (onAuth_resume svc (waiting sys ! i))),
                  waiting = take i (waiting sys) @ drop (Suc i) (waiting sys)\<rparr>
          else None)"

fun run :: "services \<Rightarrow> system \<Rightarrow> step list \<Rightarrow> system option" where
  "run svc sys [] = Some sys"
| "run svc sys (st # sts) =
     (case do_step svc sys st of None \<Rightarrow> None | Some sys' \<Rightarrow> run svc sys' sts)"

text \<open>
  The schedule in which no two handlers overlap: every event with a user is followed at
  once by the resolution of its own fetch.
\<close>

fun one_at_a_time :: "User option list \<Rightarrow> step list" where
  "one_at_a_time [] = []"
| "one_at_a_time (None # evs) = Auth_event None # one_at_a_time evs"
| "one_at_a_time (Some u # evs) = Auth_event (Some u) # Fetch_resolves 0 # one_at_a_time evs"

section \<open>Route guards (components/auth/ProtectedRoute)\<close>

text \<open>
  A \<^verbatim>\<open>ReactNode\<close>: an element (here by its text) or one of the primitive nodes. The source
  tests \<^verbatim>\<open>if (fallback)\<close>, so the falsy nodes count as no fallback.
\<close>

datatype node = Element string | Text_node string | Num_node int | Bool_node bool | Null_node

fun truthy :: "node \<Rightarrow> bool" where
  "truthy (Element e) = True"
| "truthy (Text_node t) = (t \<noteq> [])"
| "truthy (Num_node n) = (n \<noteq> 0)"
| "truthy (Bool_node b) = b"
| "truthy Null_node = False"

text \<open>
  What a guard returns: the loading view, the redirect \<^verbatim>\<open><Navigate to=... state={{from}} replace/>\<close>,
  the children, the fallback, or the generic access-denied view with the required role and
  the current role it prints.
\<close>

datatype view =
    Loading_view
  | Navigate string string
  | Children node
  | Fallback node
  | Access_denied string string

text \<open>
  \<^verbatim>\<open>ProtectedRoute\<close> with the props \<^verbatim>\<open>children\<close>, \<^verbatim>\<open>requiredRole?\<close>, \<^verbatim>\<open>requireAuth = true\<close>
  and \<^verbatim>\<open>fallback?\<close> (\<open>None\<close> for an omitted prop), at the current location.
\<close>

definition ProtectedRoute ::
  "AuthState \<Rightarrow> string \<Rightarrow> node \<Rightarrow> role option \<Rightarrow> bool option \<Rightarrow> node option \<Rightarrow> view" where
  "ProtectedRoute s location children requiredRole requireAuth fallback =
     (if isLoading s then Loading_view
      else if (case requireAuth of None \<Rightarrow> True | Some b \<Rightarrow> b) \<and> \<not> isAuthenticated s then
        Navigate ''/login'' location
      else
        (case requiredRole of
           None \<Rightarrow> Children children
         | Some required \<Rightarrow>
             if map_option role (profile s) \<noteq> Some required then
               if map_option role (profile s) = Some Role_admin then Children children
               else
                 (case (case fallback of None \<Rightarrow> None
                        | Some f \<Rightarrow> if truthy f then Some f else None) of
                    Some f \<Rightarrow> Fallback f
                  | None \<Rightarrow>
                      Access_denied (role_name required)
                        (case profile s of None \<Rightarrow> ''Unknown'' | Some p \<Rightarrow> role_name (role p)))
             else Children children))"

definition AdminRoute :: "AuthState \<Rightarrow> string \<Rightarrow> node \<Rightarrow> view" where
  "AdminRoute s location children = ProtectedRoute s location children (Some Role_admin) None None"





text \<open>Sample data.\<close>

definition alice :: User where
  "alice = \<lparr>user_id = ''A'', email = ''alice@example.org''\<rparr>"

definition bob :: User where
  "bob = \<lparr>user_id = ''B'', email = ''bob@example.org''\<rparr>"

definition alice_profile :: UserProfile where
  "alice_profile = \<lparr>profile_id = ''A'', full_name = ''Alice'', role = Role_moderator,
     is_active = True, blocked = False, permissions = None\<rparr>"

definition bob_profile :: UserProfile where
  "bob_profile = \<lparr>profile_id = ''B'', full_name = ''Bob'', role = Role_editor,
     is_active = True, blocked = False, permissions = None\<rparr>"

definition svc_up :: services where
  "svc_up = \<lparr>profiles = [alice_profile, bob_profile], connection = Up,
     remote_signOut = Resolved SignOut_ok, remote_getSession = Resolved (Session_data None)\<rparr>"

definition alice_signed_in :: AuthState where
  "alice_signed_in = \<lparr>user = Some alice, profile = Some alice_profile, isLoading = False\<rparr>"

definition bob_signed_in :: AuthState where
  "bob_signed_in = \<lparr>user = Some bob, profile = Some bob_profile, isLoading = False\<rparr>"

section \<open>Capability resolution\<close>

lemma static_table_lookup:
  "(case map_of rolePermissions (role_name r) of None \<Rightarrow> False | Some caps \<Rightarrow> n \<in> set caps)
     = (n \<in> static_capabilities r)"
  by (cases r) (simp_all add: rolePermissions_def)

text \<open>
  C2 (counterexample). A moderator whose override mapping exists and is empty:
  \<^verbatim>\<open>moderate_content\<close> is in the moderator's static set and is not a key of the mapping,
  so the claimed order falls through to the table and allows; \<open>hasPermission\<close> denies.
\<close>

theorem hasPermission_empty_override_counterexample:
  "hasCapability_spec
      \<lparr>user = Some alice, profile = Some (alice_profile\<lparr>permissions := Some Map.empty\<rparr>),
       isLoading = False\<rparr> ''moderate_content''
   \<and> \<not> hasPermission
      \<lparr>user = Some alice, profile = Some (alice_profile\<lparr>permissions := Some Map.empty\<rparr>),
       isLoading = False\<rparr> ''moderate_content''"
  by (simp add: hasCapability_spec_def hasPermission_def alice_profile_def)

text \<open>
  C2 (amended). \<open>hasPermission\<close> resolves in this order: no profile denies; role admin
  allows whatever the mapping and the table say; otherwise, when the override mapping is
  present (non-null), the answer is whether it maps the name to the boolean \<open>true\<close>, a
  missing key denying, and the static table is not consulted; only when the mapping is
  absent (null) is the answer membership in the static set of the role.
\<close>

theorem hasPermission_resolution:
  "hasPermission s name =
     (case profile s of
        None \<Rightarrow> False
      | Some p \<Rightarrow>
          role p = Role_admin \<or>
          (case permissions p of
             Some perms \<Rightarrow> perms name = Some (JBool True)
           | None \<Rightarrow>
               (case role p of
                  Role_moderator \<Rightarrow>
                    name \<in> {''moderate_content'', ''manage_comments'', ''view_analytics''}
                | Role_editor \<Rightarrow> name \<in> {''create_content'', ''edit_content'', ''manage_posts''}
                | Role_user \<Rightarrow> name \<in> {''view_content'', ''create_comments''}
                | Role_admin \<Rightarrow> False)))"
proof (cases "profile s")
  case None
  then show ?thesis by (simp add: hasPermission_def)
next
  case (Some p)
  show ?thesis
  proof (cases "permissions p")
    case None
    with \<open>profile s = Some p\<close> show ?thesis
      unfolding hasPermission_def static_table_lookup
      by (cases "role p") simp_all
  next
    case (Some perms)
    with \<open>profile s = Some p\<close> show ?thesis
      by (simp add: hasPermission_def)
  qed
qed

section \<open>Fetching a profile\<close>

lemma apply_effects_simps [simp]:
  "apply_effects s [] = s"
  "apply_effects s (e # es) = apply_effects (apply_effect s e) es"
  by (simp_all add: apply_effects_def)

lemma apply_effects_append:
  "apply_effects s (es @ es') = apply_effects (apply_effects s es) es'"
  by (simp add: apply_effects_def)

lemma deliver_append: "deliver svc (es @ es') = deliver svc es @ deliver svc es'"
  by (induction svc es rule: deliver.induct) simp_all

lemma state_after_append:
  "state_after svc s (es @ es') = state_after svc (state_after svc s es) es'"
  by (simp add: state_after_def deliver_append apply_effects_append)

text \<open>
  A fetched profile is a row of the table, the one whose id is the id asked for, and the
  connection was up.
\<close>

theorem fetchUserProfile_requested_row:
  assumes "fetchUserProfile svc userId = Some p"
  shows "profile_id p = userId \<and> p \<in> set (profiles svc) \<and> connection svc = Up"
proof -
  from assms have up: "connection svc = Up"
    and rows: "filter (\<lambda>row. profile_id row = userId) (profiles svc) = [p]"
    by (auto simp add: fetchUserProfile_def select_single_def
        split: transport.splits list.splits)
  from rows have "p \<in> set (filter (\<lambda>row. profile_id row = userId) (profiles svc))"
    by simp
  with up show ?thesis by simp
qed

theorem fetchUserProfile_requested_row_witness:
  "fetchUserProfile svc_up ''B'' = Some bob_profile \<and> profile_id bob_profile = ''B''
   \<and> bob_profile \<in> set (profiles svc_up) \<and> connection svc_up = Up"
proof -
  have f: "fetchUserProfile svc_up ''B'' = Some bob_profile"
    by (simp add: fetchUserProfile_def select_single_def svc_up_def alice_profile_def
        bob_profile_def)
  from fetchUserProfile_requested_row [OF f] f show ?thesis by simp
qed

section \<open>Sign-out\<close>

text \<open>
  The effects of \<open>signOut\<close>. It always returns. When the remote call resolves, with or
  without an error in its reply, the setters run: identity and profile become null. When
  the remote call rejects, the \<^verbatim>\<open>catch\<close> block shows the notice \<^verbatim>\<open>Error signing out\<close> and the
  setters are skipped.
\<close>

lemma signOut_effects:
  "snd (signOut svc) = Returned
   \<and> (case remote_signOut svc of
         Resolved reply \<Rightarrow>
           apply_effects s (fst (signOut svc)) = s\<lparr>user := None, profile := None\<rparr>
           \<and> \<not> isAuthenticated (apply_effects s (fst (signOut svc)))
       | Rejected \<Rightarrow>
           apply_effects s (fst (signOut svc)) = s
           \<and> fst (signOut svc) = [Call_remote_signOut, Toast_error ''Error signing out''])"
  by (cases "remote_signOut svc") (simp_all add: signOut_def signOut_try_def isAuthenticated_def)

text \<open>
  C4. A transient failure of the remote sign-out makes the call resolve with an error in
  its reply. Whenever the call resolves, and so also then, \<open>signOut\<close> returns with the
  local identity and profile set to null: the state is not authenticated, whether the
  notification of a sign-out was delivered or not.
\<close>

theorem signOut_clears_when_call_resolves:
  assumes "remote_signOut svc = Resolved reply"
  shows "snd (signOut svc) = Returned
     \<and> apply_effects s (fst (signOut svc)) = s\<lparr>user := None, profile := None\<rparr>
     \<and> user (state_after svc s (fst (signOut svc))) = None
     \<and> profile (state_after svc s (fst (signOut svc))) = None
     \<and> \<not> isAuthenticated (state_after svc s (fst (signOut svc)))"
  using assms
  by (cases reply)
    (simp_all add: signOut_def signOut_try_def state_after_def signed_out_notification_def
      onAuth_begin_def isAuthenticated_def)

theorem signOut_clears_when_call_resolves_witness:
  "remote_signOut (svc_up\<lparr>remote_signOut := Resolved SignOut_error\<rparr>) = Resolved SignOut_error
   \<and> isAuthenticated alice_signed_in
   \<and> snd (signOut (svc_up\<lparr>remote_signOut := Resolved SignOut_error\<rparr>)) = Returned
   \<and> state_after (svc_up\<lparr>remote_signOut := Resolved SignOut_error\<rparr>) alice_signed_in
        (fst (signOut (svc_up\<lparr>remote_signOut := Resolved SignOut_error\<rparr>)))
       = \<lparr>user = None, profile = None, isLoading = False\<rparr>"
proof -
  have h: "remote_signOut (svc_up\<lparr>remote_signOut := Resolved SignOut_error\<rparr>)
             = Resolved SignOut_error" by simp
  have a: "isAuthenticated alice_signed_in"
    by (simp add: alice_signed_in_def isAuthenticated_def)
  have "state_after (svc_up\<lparr>remote_signOut := Resolved SignOut_error\<rparr>) alice_signed_in
          (fst (signOut (svc_up\<lparr>remote_signOut := Resolved SignOut_error\<rparr>)))
        = \<lparr>user = user (state_after (svc_up\<lparr>remote_signOut := Resolved SignOut_error\<rparr>)
                     alice_signed_in
                     (fst (signOut (svc_up\<lparr>remote_signOut := Resolved SignOut_error\<rparr>)))),
           profile = profile (state_after (svc_up\<lparr>remote_signOut := Resolved SignOut_error\<rparr>)
                     alice_signed_in
                     (fst (signOut (svc_up\<lparr>remote_signOut := Resolved SignOut_error\<rparr>)))),
           isLoading = False\<rparr>"
    by (simp add: signOut_def signOut_try_def state_after_def signed_out_notification_def
        alice_signed_in_def)
  with signOut_clears_when_call_resolves [OF h, of alice_signed_in] h a show ?thesis
    by simp
qed

text \<open>
  C9. Signing out when identity and profile are already null leaves the state unchanged
  and lets no error escape, whatever the remote call does. With the notification of a
  successful sign-out counted in, identity and profile are null as before (the handler
  of the notification clears them again, and clears loading).
\<close>

theorem signOut_idempotent:
  assumes "user s = None" and "profile s = None"
  shows "snd (signOut svc) = Returned \<and> apply_effects s (fst (signOut svc)) = s
     \<and> user (state_after svc s (fst (signOut svc))) = None
     \<and> profile (state_after svc s (fst (signOut svc))) = None"
proof (cases "remote_signOut svc")
  case Rejected
  with assms show ?thesis
    by (simp add: signOut_def signOut_try_def state_after_def signed_out_notification_def)
next
  case (Resolved reply)
  with assms show ?thesis
    by (cases reply)
      (simp_all add: signOut_def signOut_try_def state_after_def signed_out_notification_def
        onAuth_begin_def)
qed

theorem signOut_idempotent_witness:
  "snd (signOut svc_up) = Returned
   \<and> apply_effects \<lparr>user = None, profile = None, isLoading = False\<rparr> (fst (signOut svc_up))
       = \<lparr>user = None, profile = None, isLoading = False\<rparr>
   \<and> snd (signOut (svc_up\<lparr>remote_signOut := Rejected\<rparr>)) = Returned
   \<and> apply_effects \<lparr>user = None, profile = None, isLoading = False\<rparr>
        (fst (signOut (svc_up\<lparr>remote_signOut := Rejected\<rparr>)))
       = \<lparr>user = None, profile = None, isLoading = False\<rparr>"
  using signOut_idempotent [of "\<lparr>user = None, profile = None, isLoading = False\<rparr>" svc_up]
    signOut_idempotent [of "\<lparr>user = None, profile = None, isLoading = False\<rparr>"
      "svc_up\<lparr>remote_signOut := Rejected\<rparr>"]
  by simp

section \<open>Profile refresh\<close>

text \<open>
  C10. With an identity in the state and a fetch that fails or finds no single record
  (\<open>fetchUserProfile\<close> gives \<open>None\<close>), \<open>refreshProfile\<close> overwrites the profile with null:
  the identity stays, and the state is no longer authenticated.
\<close>

theorem refreshProfile_failed_fetch_clears_profile:
  assumes "user s = Some u" and "fetchUserProfile svc (user_id u) = None"
  shows "apply_effects s (refreshProfile svc s) = s\<lparr>profile := None\<rparr>
     \<and> user (apply_effects s (refreshProfile svc s)) = Some u
     \<and> \<not> isAuthenticated (apply_effects s (refreshProfile svc s))"
  using assms by (simp add: refreshProfile_def isAuthenticated_def)

theorem refreshProfile_failed_fetch_witness:
  "isAuthenticated alice_signed_in
   \<and> fetchUserProfile (svc_up\<lparr>connection := Failing\<rparr>) (user_id alice) = None
   \<and> apply_effects alice_signed_in
        (refreshProfile (svc_up\<lparr>connection := Failing\<rparr>) alice_signed_in)
       = \<lparr>user = Some alice, profile = None, isLoading = False\<rparr>
   \<and> \<not> isAuthenticated
        (apply_effects alice_signed_in
           (refreshProfile (svc_up\<lparr>connection := Failing\<rparr>) alice_signed_in))"
proof -
  have u: "user alice_signed_in = Some alice" by (simp add: alice_signed_in_def)
  have f: "fetchUserProfile (svc_up\<lparr>connection := Failing\<rparr>) (user_id alice) = None"
    by (simp add: fetchUserProfile_def select_single_def svc_up_def)
  show ?thesis
    using refreshProfile_failed_fetch_clears_profile [OF u f] f
    by (simp add: alice_signed_in_def isAuthenticated_def)
qed

text \<open>
  C1 (the code at the failing input). Alice is signed in and her row is blocked
  afterwards. \<open>refreshProfile\<close> stores the blocked row, and the state stays authenticated:
  it has no check of \<^verbatim>\<open>blocked\<close> and \<^verbatim>\<open>is_active\<close>, which both \<open>getInitialSession\<close> and the
  auth-state-change handler make.
\<close>

theorem refreshProfile_stores_blocked_profile:
  "apply_effects alice_signed_in
      (refreshProfile (svc_up\<lparr>profiles := [alice_profile\<lparr>blocked := True\<rparr>]\<rparr>) alice_signed_in)
     = \<lparr>user = Some alice, profile = Some (alice_profile\<lparr>blocked := True\<rparr>), isLoading = False\<rparr>
   \<and> blocked (alice_profile\<lparr>blocked := True\<rparr>)
   \<and> isAuthenticated (apply_effects alice_signed_in
        (refreshProfile (svc_up\<lparr>profiles := [alice_profile\<lparr>blocked := True\<rparr>]\<rparr>) alice_signed_in))"
  by (simp add: refreshProfile_def fetchUserProfile_def select_single_def svc_up_def
      alice_signed_in_def isAuthenticated_def alice_profile_def alice_def)

section \<open>The auth-state-change handler\<close>

text \<open>
  C5 (the code at the failing input). Alice is signed in; an event arrives for Bob, whose
  row is missing. The handler sets the user to Bob and, the fetch giving null, leaves the
  profile alone: the state is authenticated with Bob's identity and Alice's profile.
\<close>

theorem onAuthStateChange_failed_fetch_keeps_stale_profile:
  "fetchUserProfile (svc_up\<lparr>profiles := [alice_profile]\<rparr>) (user_id bob) = None
   \<and> apply_effects alice_signed_in
        (fst (onAuthStateChange (svc_up\<lparr>profiles := [alice_profile]\<rparr>) (Some bob)))
       = \<lparr>user = Some bob, profile = Some alice_profile, isLoading = False\<rparr>
   \<and> isAuthenticated (apply_effects alice_signed_in
        (fst (onAuthStateChange (svc_up\<lparr>profiles := [alice_profile]\<rparr>) (Some bob))))
   \<and> profile_id alice_profile \<noteq> user_id bob"
  by (simp add: onAuthStateChange_def onAuth_begin_def onAuth_resume_def fetchUserProfile_def
      select_single_def svc_up_def alice_signed_in_def isAuthenticated_def alice_profile_def
      bob_def)

text \<open>
  The blocked branch of the handler when the remote sign-out succeeds: the handler itself
  never calls \<^verbatim>\<open>setIsLoading\<close>, and loading is cleared by the handler of the notification,
  which runs inside the call.
\<close>

lemma onAuthStateChange_blocked_signed_out:
  "deliver (svc_up\<lparr>profiles := [bob_profile\<lparr>blocked := True\<rparr>]\<rparr>)
      (fst (onAuthStateChange (svc_up\<lparr>profiles := [bob_profile\<lparr>blocked := True\<rparr>]\<rparr>) (Some bob)))
     = [SetUser (Some bob), Call_remote_signOut, SetUser None, SetProfile None,
        SetIsLoading False, Toast_error account_not_active]
   \<and> state_after (svc_up\<lparr>profiles := [bob_profile\<lparr>blocked := True\<rparr>]\<rparr>) initial_state
        (fst (onAuthStateChange (svc_up\<lparr>profiles := [bob_profile\<lparr>blocked := True\<rparr>]\<rparr>) (Some bob)))
     = \<lparr>user = None, profile = None, isLoading = False\<rparr>"
  by (simp add: onAuthStateChange_def onAuth_begin_def onAuth_resume_def fetchUserProfile_def
      select_single_def svc_up_def initial_state_def bob_profile_def bob_def state_after_def
      signed_out_notification_def)

text \<open>
  C6 (the code at the failing input). The first event after start is for Bob, whose row
  is blocked, and the remote sign-out fails, replying with an error: no sign-out is
  notified. The handler returns right after the notice without any \<^verbatim>\<open>setIsLoading\<close>, so
  nothing clears loading for this event: even with the notification counted in, the
  effects hold no \<^verbatim>\<open>setIsLoading(false)\<close> and the state is still loading, with Bob as user.
\<close>

theorem onAuthStateChange_blocked_leaves_loading:
  "onAuthStateChange
      (svc_up\<lparr>profiles := [bob_profile\<lparr>blocked := True\<rparr>],
              remote_signOut := Resolved SignOut_error\<rparr>) (Some bob)
     = ([SetUser (Some bob), Call_remote_signOut, Toast_error account_not_active], Returned)
   \<and> deliver
        (svc_up\<lparr>profiles := [bob_profile\<lparr>blocked := True\<rparr>],
                remote_signOut := Resolved SignOut_error\<rparr>)
        (fst (onAuthStateChange
           (svc_up\<lparr>profiles := [bob_profile\<lparr>blocked := True\<rparr>],
                   remote_signOut := Resolved SignOut_error\<rparr>) (Some bob)))
     = [SetUser (Some bob), Call_remote_signOut, Toast_error account_not_active]
   \<and> state_after
        (svc_up\<lparr>profiles := [bob_profile\<lparr>blocked := True\<rparr>],
                remote_signOut := Resolved SignOut_error\<rparr>) initial_state
        (fst (onAuthStateChange
           (svc_up\<lparr>profiles := [bob_profile\<lparr>blocked := True\<rparr>],
                   remote_signOut := Resolved SignOut_error\<rparr>) (Some bob)))
     = \<lparr>user = Some bob, profile = None, isLoading = True\<rparr>"
  by (simp add: onAuthStateChange_def onAuth_begin_def onAuth_resume_def fetchUserProfile_def
      select_single_def svc_up_def initial_state_def bob_profile_def bob_def state_after_def
      signed_out_notification_def)

text \<open>
  Neither the handler nor \<open>getInitialSession\<close> ever stores a blocked or inactive profile.
\<close>

theorem handlers_store_only_active_profiles:
  assumes "SetProfile (Some p) \<in> set (fst (onAuthStateChange svc e))
           \<or> SetProfile (Some p) \<in> set (fst (getInitialSession svc))"
  shows "\<not> blocked p \<and> is_active p"
  using assms
  by (auto simp add: onAuthStateChange_def onAuth_begin_def onAuth_resume_def
      getInitialSession_def getInitialSession_try_def
      split: option.splits if_splits awaited.splits session_reply.splits)

theorem handlers_store_only_active_profiles_witness:
  "SetProfile (Some bob_profile) \<in> set (fst (onAuthStateChange svc_up (Some bob)))
   \<and> \<not> blocked bob_profile \<and> is_active bob_profile"
proof -
  have h: "SetProfile (Some bob_profile) \<in> set (fst (onAuthStateChange svc_up (Some bob)))"
    by (simp add: onAuthStateChange_def onAuth_begin_def onAuth_resume_def fetchUserProfile_def
        select_single_def svc_up_def alice_profile_def bob_profile_def bob_def)
  then have "SetProfile (Some bob_profile) \<in> set (fst (onAuthStateChange svc_up (Some bob)))
      \<or> SetProfile (Some bob_profile) \<in> set (fst (getInitialSession svc_up))" by simp
  from handlers_store_only_active_profiles [OF this] h show ?thesis by simp
qed

text \<open>
  \<open>getInitialSession\<close> always returns, and its last effect is \<^verbatim>\<open>setIsLoading(false)\<close>. The
  handler, unless the fetched profile is blocked or inactive, returns after exactly one
  \<^verbatim>\<open>setIsLoading(false)\<close>, its last effect.
\<close>

theorem loading_cleared_last:
  "snd (getInitialSession svc) = Returned
   \<and> last (fst (getInitialSession svc)) = SetIsLoading False
   \<and> ((\<forall>u p. e = Some u \<and> fetchUserProfile svc (user_id u) = Some p
              \<longrightarrow> \<not> blocked p \<and> is_active p) \<longrightarrow>
        snd (onAuthStateChange svc e) = Returned
        \<and> count_list (fst (onAuthStateChange svc e)) (SetIsLoading False) = 1
        \<and> last (fst (onAuthStateChange svc e)) = SetIsLoading False)"
  by (auto simp add: onAuthStateChange_def onAuth_begin_def onAuth_resume_def
      getInitialSession_def split: option.splits)

theorem loading_cleared_last_witness:
  "fst (onAuthStateChange svc_up (Some bob))
     = [SetUser (Some bob), SetProfile (Some bob_profile), SetIsLoading False]
   \<and> count_list (fst (onAuthStateChange svc_up (Some bob))) (SetIsLoading False) = 1
   \<and> last (fst (onAuthStateChange svc_up (Some bob))) = SetIsLoading False"
proof -
  have f: "fetchUserProfile svc_up (user_id bob) = Some bob_profile"
    by (simp add: fetchUserProfile_def select_single_def svc_up_def alice_profile_def
        bob_profile_def bob_def)
  have e: "fst (onAuthStateChange svc_up (Some bob))
     = [SetUser (Some bob), SetProfile (Some bob_profile), SetIsLoading False]"
    using f by (simp add: onAuthStateChange_def onAuth_begin_def onAuth_resume_def bob_profile_def)
  have h: "\<forall>u p. Some bob = Some u \<and> fetchUserProfile svc_up (user_id u) = Some p
              \<longrightarrow> \<not> blocked p \<and> is_active p"
    using f by (auto simp add: bob_profile_def)
  from loading_cleared_last [of svc_up "Some bob"] h e show ?thesis by metis
qed

section \<open>Overlapping and consecutive events\<close>

text \<open>
  C3 (counterexample). Login of Alice, logout, login of Bob; Bob's fetch resolves first,
  Alice's last. Nothing discards the late result: the final state has Bob's identity with
  Alice's profile, although the fetch for Bob gave Bob's profile.
\<close>

theorem stale_fetch_overwrites_counterexample:
  "run svc_up \<lparr>auth = initial_state, waiting = []\<rparr>
     [Auth_event (Some alice), Auth_event None, Auth_event (Some bob),
      Fetch_resolves 1, Fetch_resolves 0]
   = Some \<lparr>auth = \<lparr>user = Some bob, profile = Some alice_profile, isLoading = False\<rparr>,
           waiting = []\<rparr>
   \<and> fetchUserProfile svc_up (user_id bob) = Some bob_profile
   \<and> alice_profile \<noteq> bob_profile"
  by (simp add: do_step_def onAuth_begin_def onAuth_resume_def fetchUserProfile_def
      select_single_def svc_up_def initial_state_def alice_def bob_def alice_profile_def
      bob_profile_def state_after_def)

lemma run_append:
  "run svc sys (xs @ ys) = (case run svc sys xs of None \<Rightarrow> None | Some sys' \<Rightarrow> run svc sys' ys)"
  by (induction xs arbitrary: sys) (simp_all split: option.splits)

lemma one_at_a_time_append: "one_at_a_time (xs @ ys) = one_at_a_time xs @ one_at_a_time ys"
  by (induction xs rule: one_at_a_time.induct) simp_all

lemma run_one_event:
  "run svc \<lparr>auth = s, waiting = []\<rparr> (one_at_a_time [e])
     = Some \<lparr>auth = state_after svc s (fst (onAuthStateChange svc e)), waiting = []\<rparr>"
proof (cases e)
  case None
  then show ?thesis by (simp add: do_step_def onAuthStateChange_def onAuth_begin_def)
next
  case (Some u)
  have "state_after svc (state_after svc s [SetUser (Some u)]) (fst (onAuth_resume svc u))
          = state_after svc s (SetUser (Some u) # fst (onAuth_resume svc u))"
    using state_after_append [of svc s "[SetUser (Some u)]" "fst (onAuth_resume svc u)"]
    by simp
  with Some show ?thesis by (simp add: do_step_def onAuthStateChange_def onAuth_begin_def)
qed

lemma run_one_at_a_time:
  "\<exists>s'. run svc \<lparr>auth = s, waiting = []\<rparr> (one_at_a_time evs)
          = Some \<lparr>auth = s', waiting = []\<rparr>"
proof (induction evs arbitrary: s)
  case Nil
  then show ?case by simp
next
  case (Cons e evs)
  have "one_at_a_time (e # evs) = one_at_a_time [e] @ one_at_a_time evs"
    using one_at_a_time_append [of "[e]" evs] by simp
  then show ?case
    using Cons.IH by (simp only: run_append run_one_event option.case)
qed

text \<open>
  C3 (amended). When the events are handled one at a time, each handler finishing before
  the next event starts, the final state reflects the last event, whatever came before:
  after a logout identity and profile are null; after a login whose fetch gives an
  active, unblocked profile the state holds that identity and that profile. (For
  overlapping handlers nothing of the kind holds: a fetch result is stored whenever it
  resolves.)
\<close>

theorem one_at_a_time_last_event_wins:
  assumes "e = None \<or> (\<exists>u p. e = Some u \<and> fetchUserProfile svc (user_id u) = Some p
                          \<and> \<not> blocked p \<and> is_active p)"
  shows "\<exists>s'. run svc \<lparr>auth = s, waiting = []\<rparr> (one_at_a_time (evs @ [e]))
                = Some \<lparr>auth = s', waiting = []\<rparr>
              \<and> user s' = e
              \<and> profile s'
                  = (case e of None \<Rightarrow> None | Some u \<Rightarrow> fetchUserProfile svc (user_id u))"
proof -
  obtain s1 where s1: "run svc \<lparr>auth = s, waiting = []\<rparr> (one_at_a_time evs)
                        = Some \<lparr>auth = s1, waiting = []\<rparr>"
    using run_one_at_a_time by blast
  let ?s' = "state_after svc s1 (fst (onAuthStateChange svc e))"
  have r: "run svc \<lparr>auth = s, waiting = []\<rparr> (one_at_a_time (evs @ [e]))
             = Some \<lparr>auth = ?s', waiting = []\<rparr>"
    by (simp only: one_at_a_time_append run_append s1 option.case run_one_event)
  from assms have "user ?s' = e
      \<and> profile ?s' = (case e of None \<Rightarrow> None | Some u \<Rightarrow> fetchUserProfile svc (user_id u))"
  proof
    assume "e = None"
    then show ?thesis by (simp add: onAuthStateChange_def onAuth_begin_def state_after_def)
  next
    assume "\<exists>u p. e = Some u \<and> fetchUserProfile svc (user_id u) = Some p
               \<and> \<not> blocked p \<and> is_active p"
    then obtain u p where "e = Some u" "fetchUserProfile svc (user_id u) = Some p"
      "\<not> blocked p" "is_active p" by blast
    then show ?thesis
      by (simp add: onAuthStateChange_def onAuth_begin_def onAuth_resume_def state_after_def)
  qed
  with r show ?thesis by blast
qed

theorem one_at_a_time_last_event_wins_witness:
  "\<exists>s'. run svc_up \<lparr>auth = initial_state, waiting = []\<rparr>
            (one_at_a_time [Some alice, None, Some bob])
          = Some \<lparr>auth = s', waiting = []\<rparr>
        \<and> user s' = Some bob \<and> profile s' = Some bob_profile"
proof -
  have f: "fetchUserProfile svc_up (user_id bob) = Some bob_profile"
    by (simp add: fetchUserProfile_def select_single_def svc_up_def alice_profile_def
        bob_profile_def bob_def)
  have h: "Some bob = None
      \<or> (\<exists>u p. Some bob = Some u \<and> fetchUserProfile svc_up (user_id u) = Some p
                \<and> \<not> blocked p \<and> is_active p)"
    using f by (simp add: bob_profile_def)
  show ?thesis
    using one_at_a_time_last_event_wins [OF h, of initial_state "[Some alice, None]"] f
    by simp
qed

section \<open>Route guards\<close>

text \<open>
  C7. \<open>ProtectedRoute\<close> decides in this order. While loading, the loading view. Else,
  when authentication is required (the default) and the state is not authenticated, the
  redirect to \<^verbatim>\<open>/login\<close> that carries the requested location. Else, when a role is required
  and the profile's role differs from it: role admin gets the children; any other role
  gets the fallback when one is supplied (a truthy node), and otherwise the access-denied
  view naming the required role and the current role (\<^verbatim>\<open>Unknown\<close> without a profile, which
  can only be met when authentication is not required). Else the children.
\<close>

theorem ProtectedRoute_decision:
  "(isLoading s \<longrightarrow> ProtectedRoute s loc ch req ra fb = Loading_view)
   \<and> (\<not> isLoading s \<and> ra \<noteq> Some False \<and> \<not> isAuthenticated s \<longrightarrow>
        ProtectedRoute s loc ch req ra fb = Navigate ''/login'' loc)
   \<and> (\<not> isLoading s \<and> (ra = Some False \<or> isAuthenticated s) \<longrightarrow>
        (\<forall>p r. profile s = Some p \<and> req = Some r \<and> role p \<noteq> r \<longrightarrow>
           (role p = Role_admin \<longrightarrow> ProtectedRoute s loc ch req ra fb = Children ch)
         \<and> (role p \<noteq> Role_admin \<longrightarrow>
              (\<forall>f. fb = Some f \<and> truthy f \<longrightarrow> ProtectedRoute s loc ch req ra fb = Fallback f)
            \<and> ((\<forall>f. fb = Some f \<longrightarrow> \<not> truthy f) \<longrightarrow>
                 ProtectedRoute s loc ch req ra fb
                   = Access_denied (role_name r) (role_name (role p)))))
      \<and> (\<forall>r. profile s = None \<and> req = Some r \<longrightarrow>
           (\<forall>f. fb = Some f \<and> truthy f \<longrightarrow> ProtectedRoute s loc ch req ra fb = Fallback f)
         \<and> ((\<forall>f. fb = Some f \<longrightarrow> \<not> truthy f) \<longrightarrow>
              ProtectedRoute s loc ch req ra fb = Access_denied (role_name r) ''Unknown''))
      \<and> (req = None \<or> (\<exists>p. profile s = Some p \<and> req = Some (role p)) \<longrightarrow>
           ProtectedRoute s loc ch req ra fb = Children ch))"
  by (cases fb; cases ra; cases req) (auto simp add: ProtectedRoute_def)

theorem ProtectedRoute_decision_witness:
  "ProtectedRoute initial_state ''/admin/users'' (Element ''Users'') (Some Role_admin) None None
     = Loading_view
   \<and> ProtectedRoute \<lparr>user = None, profile = None, isLoading = False\<rparr> ''/admin/users''
       (Element ''Users'') (Some Role_admin) None None = Navigate ''/login'' ''/admin/users''
   \<and> ProtectedRoute bob_signed_in ''/admin/users'' (Element ''Users'') (Some Role_admin) None None
     = Access_denied ''admin'' ''editor''
   \<and> ProtectedRoute bob_signed_in ''/admin/users'' (Element ''Users'') (Some Role_admin) None
       (Some (Element ''No entry'')) = Fallback (Element ''No entry'')
   \<and> ProtectedRoute (bob_signed_in\<lparr>profile := Some (bob_profile\<lparr>role := Role_admin\<rparr>)\<rparr>)
       ''/admin/tags'' (Element ''Tags'') (Some Role_moderator) None None
     = Children (Element ''Tags'')
   \<and> ProtectedRoute bob_signed_in ''/profile'' (Element ''Profile'') None None None
     = Children (Element ''Profile'')"
  using ProtectedRoute_decision [of initial_state "''/admin/users''" "Element ''Users''"
      "Some Role_admin" None None]
    ProtectedRoute_decision [of "\<lparr>user = None, profile = None, isLoading = False\<rparr>"
      "''/admin/users''" "Element ''Users''" "Some Role_admin" None None]
    ProtectedRoute_decision [of bob_signed_in "''/admin/users''" "Element ''Users''"
      "Some Role_admin" None None]
    ProtectedRoute_decision [of bob_signed_in "''/admin/users''" "Element ''Users''"
      "Some Role_admin" None "Some (Element ''No entry'')"]
    ProtectedRoute_decision
      [of "bob_signed_in\<lparr>profile := Some (bob_profile\<lparr>role := Role_admin\<rparr>)\<rparr>"
      "''/admin/tags''" "Element ''Tags''" "Some Role_moderator" None None]
    ProtectedRoute_decision [of bob_signed_in "''/profile''" "Element ''Profile''" None None None]
  by (simp add: initial_state_def bob_signed_in_def bob_profile_def isAuthenticated_def)



end
